theory Spec2Isabelle
  imports
    Main
    "HOL-Library.Word"
    "HOL-Library.List_Lexorder"
    "HOL-Library.Product_Lexorder"
begin

section \<open>Strings, bytes and results\<close>

text \<open>
  A Python \<^verbatim>\<open>str\<close> is a sequence of Unicode code points, modelled as a list of
  naturals.  The order on such lists is the lexicographic one, which is both Python's
  comparison of \<^verbatim>\<open>str\<close> and SQLite's \<^verbatim>\<open>BINARY\<close> collation of \<^verbatim>\<open>TEXT\<close> (a
  byte-wise comparison of UTF-8, which agrees with the code point order).  A Python
  \<^verbatim>\<open>bytes\<close> is a list of 8-bit words.  \<open>cps\<close> writes an ASCII literal.
\<close>

type_synonym pystr = "nat list"
type_synonym byte = "8 word"

definition cps :: "string \<Rightarrow> pystr" where
  "cps s = map of_char s"

datatype py_error = TypeError | ValueError | OverflowError | OperationalError

section \<open>The message store (\<^verbatim>\<open>app/storage.py\<close>)\<close>

text \<open>
  One row of the table \<^verbatim>\<open>messages\<close>.  The column \<^verbatim>\<open>text\<close> is nullable; every other
  column is \<^verbatim>\<open>TEXT NOT NULL\<close>, and \<^verbatim>\<open>message_id\<close> is the primary key.  The table is
  the list of its rows in insertion order.
\<close>

record row =
  message_id :: pystr
  from_msisdn :: pystr
  to_msisdn :: pystr
  ts :: pystr
  text_col :: "pystr option"
  created_at :: pystr

type_synonym store = "row list"

text \<open>The primary key constraint: no two rows share a \<^verbatim>\<open>message_id\<close>.\<close>

definition primary_key :: "store \<Rightarrow> bool" where
  "primary_key db = distinct (map message_id db)"

text \<open>
  \<^verbatim>\<open>insert_message\<close> returns \<^verbatim>\<open>(success, is_duplicate)\<close>.  The \<^verbatim>\<open>INSERT\<close> raises
  \<^verbatim>\<open>sqlite3.IntegrityError\<close> when the key is already there; the connection is rolled back
  and the function answers \<^verbatim>\<open>(True, True)\<close>.  Otherwise the row is committed with
  \<^verbatim>\<open>created_at = datetime.utcnow().isoformat() + 'Z'\<close>; \<open>now\<close> is that clock reading.
\<close>

definition insert_message ::
  "pystr \<Rightarrow> pystr \<Rightarrow> pystr \<Rightarrow> pystr \<Rightarrow> pystr \<Rightarrow> pystr option \<Rightarrow> store \<Rightarrow> (bool \<times> bool) \<times> store" where
  "insert_message now mid frm to tstamp txt db =
     (if mid \<in> set (map message_id db) then ((True, True), db)
      else ((True, False),
            db @ [\<lparr>message_id = mid, from_msisdn = frm, to_msisdn = to, ts = tstamp,
                   text_col = txt, created_at = now @ cps ''Z''\<rparr>]))"

subsection \<open>The \<^verbatim>\<open>LIKE\<close> operator of SQLite\<close>

text \<open>
  \<^verbatim>\<open>text LIKE ?\<close> with SQLite's defaults: \<^verbatim>\<open>%\<close> matches any sequence of characters,
  \<^verbatim>\<open>_\<close> matches exactly one character, and any other character matches itself, where
  the ASCII letters are compared without regard to case.  There is no escape character.
  SQLite reads pattern and text as C strings, so each ends at its first character
  U+0000, if it has one.  When it evaluates \<^verbatim>\<open>LIKE\<close> it refuses a pattern of more than
  50000 bytes of UTF-8 with an error, which the driver raises as
  \<^verbatim>\<open>sqlite3.OperationalError\<close>.
\<close>

definition ascii_lower :: "nat \<Rightarrow> nat" where
  "ascii_lower c = (if 65 \<le> c \<and> c \<le> 90 then c + 32 else c)"

function like :: "pystr \<Rightarrow> pystr \<Rightarrow> bool" where
  "like [] s = (s = [])"
| "like (p # ps) s =
     (if p = 37 then like ps s \<or> (case s of [] \<Rightarrow> False | _ # t \<Rightarrow> like (p # ps) t)
      else (case s of [] \<Rightarrow> False
            | c # t \<Rightarrow> (p = 95 \<or> ascii_lower p = ascii_lower c) \<and> like ps t))"
  by pat_completeness auto
termination
  by (relation "measure (\<lambda>(p, s). length p + length s)") auto

definition c_str :: "pystr \<Rightarrow> pystr" where
  "c_str s = takeWhile (\<lambda>c. c \<noteq> 0) s"

definition sqlite_like :: "pystr \<Rightarrow> pystr \<Rightarrow> bool" where
  "sqlite_like pat s = like (c_str pat) (c_str s)"

definition utf8_length :: "pystr \<Rightarrow> nat" where
  "utf8_length s =
     sum_list (map (\<lambda>c. if c < 128 then 1 else if c < 2048 then 2
                         else if c < 65536 then 3 else 4) s)"

definition pattern_too_complex :: "pystr \<Rightarrow> bool" where
  "pattern_too_complex pat = (50000 < utf8_length pat)"

subsection \<open>Listing\<close>

text \<open>The dictionary built from a selected row: the five columns of the \<^verbatim>\<open>SELECT\<close>.\<close>

record message =
  m_message_id :: pystr
  m_from :: pystr
  m_to :: pystr
  m_ts :: pystr
  m_text :: "pystr option"

definition to_dict :: "row \<Rightarrow> message" where
  "to_dict r = \<lparr>m_message_id = message_id r, m_from = from_msisdn r, m_to = to_msisdn r,
                m_ts = ts r, m_text = text_col r\<rparr>"

text \<open>
  The \<^verbatim>\<open>WHERE\<close> clause.  A filter takes part only when its argument is truthy: neither
  \<^verbatim>\<open>None\<close> nor the empty string.  A \<^verbatim>\<open>NULL\<close> text never satisfies \<^verbatim>\<open>LIKE\<close>.
\<close>

definition truthy :: "pystr option \<Rightarrow> bool" where
  "truthy v = (case v of None \<Rightarrow> False | Some s \<Rightarrow> s \<noteq> [])"

definition where_clauses :: "pystr option \<Rightarrow> pystr option \<Rightarrow> pystr option \<Rightarrow> (row \<Rightarrow> bool) list" where
  "where_clauses from_filter since q =
     (if truthy from_filter then [\<lambda>r. from_msisdn r = the from_filter] else []) @
     (if truthy since then [\<lambda>r. ts r \<ge> the since] else []) @
     (if truthy q
      then [\<lambda>r. case text_col r of None \<Rightarrow> False
                 | Some t \<Rightarrow> sqlite_like (cps ''%'' @ the q @ cps ''%'') t]
      else [])"

text \<open>The clauses joined by \<^verbatim>\<open>AND\<close>; with no clause the condition is \<^verbatim>\<open>1=1\<close>.\<close>

definition where_sql :: "(row \<Rightarrow> bool) list \<Rightarrow> row \<Rightarrow> bool" where
  "where_sql clauses r = list_all (\<lambda>c. c r) clauses"

text \<open>
  The count query runs first.  SQLite tests the clauses of a row in their order and
  leaves the row at the first that fails, so \<^verbatim>\<open>LIKE\<close> is evaluated, and a pattern that
  is too long refused, when some row satisfies the clauses on sender and timestamp.
\<close>

definition like_raises :: "pystr option \<Rightarrow> pystr option \<Rightarrow> pystr option \<Rightarrow> store \<Rightarrow> bool" where
  "like_raises from_filter since q db =
     (truthy q \<and> pattern_too_complex (cps ''%'' @ the q @ cps ''%'') \<and>
      filter (where_sql (where_clauses from_filter since None)) db \<noteq> [])"

text \<open>
  \<^verbatim>\<open>ORDER BY ts ASC, message_id ASC LIMIT ? OFFSET ?\<close>.  In SQLite a negative limit
  means no limit and a negative offset means none.  The two bound integers must fit
  SQLite's 64-bit \<^verbatim>\<open>INTEGER\<close>: the driver raises \<^verbatim>\<open>OverflowError\<close> otherwise.
\<close>

definition order_by :: "row list \<Rightarrow> row list" where
  "order_by rs = sort_key (\<lambda>r. (ts r, message_id r)) rs"

definition limit_offset :: "int \<Rightarrow> int \<Rightarrow> 'a list \<Rightarrow> 'a list" where
  "limit_offset lim off xs =
     (let ys = drop (nat off) xs in if lim < 0 then ys else take (nat lim) ys)"

definition sqlite_integer :: "int \<Rightarrow> bool" where
  "sqlite_integer i = (- (2 ^ 63) \<le> i \<and> i < 2 ^ 63)"

definition get_messages ::
  "int \<Rightarrow> int \<Rightarrow> pystr option \<Rightarrow> pystr option \<Rightarrow> pystr option \<Rightarrow> store
     \<Rightarrow> py_error + (message list \<times> nat)" where
  "get_messages lim off from_filter since q db =
     (let matching = filter (where_sql (where_clauses from_filter since q)) db;
          total = length matching
      in if like_raises from_filter since q db then Inl OperationalError
         else if \<not> (sqlite_integer lim \<and> sqlite_integer off) then Inl OverflowError
         else Inr (map to_dict (limit_offset lim off (order_by matching)), total))"

subsection \<open>Statistics\<close>

text \<open>
  The aggregates \<^verbatim>\<open>MIN\<close> and \<^verbatim>\<open>MAX\<close> are \<^verbatim>\<open>NULL\<close> over no rows.
  \<^verbatim>\<open>GROUP BY from_msisdn\<close> yields one group per sender with its row count, taken here in
  ascending sender order; \<^verbatim>\<open>ORDER BY count DESC LIMIT 10\<close> sorts the groups by
  descending count (the order among equal counts is left open by SQL; the model keeps
  the group order) and keeps the first ten.
\<close>

definition sql_min :: "pystr list \<Rightarrow> pystr option" where
  "sql_min xs = (case xs of [] \<Rightarrow> None | x # ys \<Rightarrow> Some (fold min ys x))"

definition sql_max :: "pystr list \<Rightarrow> pystr option" where
  "sql_max xs = (case xs of [] \<Rightarrow> None | x # ys \<Rightarrow> Some (fold max ys x))"

definition group_by_from :: "store \<Rightarrow> (pystr \<times> nat) list" where
  "group_by_from db =
     map (\<lambda>f. (f, length (filter (\<lambda>r. from_msisdn r = f) db)))
         (sort (remdups (map from_msisdn db)))"

record stats =
  total_messages :: nat
  senders_count :: nat
  messages_per_sender :: "(pystr \<times> nat) list"
  first_message_ts :: "pystr option"
  last_message_ts :: "pystr option"

definition get_stats :: "store \<Rightarrow> stats" where
  "get_stats db =
     \<lparr>total_messages = length db,
      senders_count = length (remdups (map from_msisdn db)),
      messages_per_sender = take 10 (sort_key (\<lambda>g. - int (snd g)) (group_by_from db)),
      first_message_ts = sql_min (map ts db),
      last_message_ts = sql_max (map ts db)\<rparr>"

section \<open>Payload validation (\<^verbatim>\<open>app/models.py\<close>)\<close>

text \<open>
  \<^verbatim>\<open>re.match(r'^\+\d+$', v)\<close>: a plus sign, then one or more characters of the class
  \<^verbatim>\<open>\d\<close>, then \<^verbatim>\<open>$\<close>.  On a \<^verbatim>\<open>str\<close> pattern \<^verbatim>\<open>\d\<close> is any Unicode decimal digit: the
  ASCII digits and the other code points of category Nd, whose table belongs to the
  interpreter and is the parameter \<open>nd\<close>.  Without \<^verbatim>\<open>re.MULTILINE\<close>, \<^verbatim>\<open>$\<close> matches at
  the end of the string and also just before a newline that ends the string.
\<close>

definition re_digit :: "(nat \<Rightarrow> bool) \<Rightarrow> nat \<Rightarrow> bool" where
  "re_digit nd c = ((48 \<le> c \<and> c \<le> 57) \<or> nd c)"

definition re_match_e164 :: "(nat \<Rightarrow> bool) \<Rightarrow> pystr \<Rightarrow> bool" where
  "re_match_e164 nd v =
     (case v of [] \<Rightarrow> False
      | c # cs \<Rightarrow> c = 43 \<and> takeWhile (re_digit nd) cs \<noteq> [] \<and>
                 (dropWhile (re_digit nd) cs = [] \<or> dropWhile (re_digit nd) cs = [10]))"

definition validate_e164 :: "(nat \<Rightarrow> bool) \<Rightarrow> pystr \<Rightarrow> py_error + pystr" where
  "validate_e164 nd v = (if \<not> re_match_e164 nd v then Inl ValueError else Inr v)"

text \<open>
  \<^verbatim>\<open>v.endswith('Z')\<close> and \<^verbatim>\<open>v.replace('Z', '+00:00')\<close>: \<^verbatim>\<open>str.replace\<close> rewrites every
  occurrence.  \<open>fromiso\<close> tells whether \<^verbatim>\<open>datetime.fromisoformat\<close> returns (it raises
  \<^verbatim>\<open>ValueError\<close> otherwise).
\<close>

definition endswith :: "pystr \<Rightarrow> nat \<Rightarrow> bool" where
  "endswith v c = (v \<noteq> [] \<and> last v = c)"

definition replace :: "pystr \<Rightarrow> nat \<Rightarrow> pystr \<Rightarrow> pystr" where
  "replace v old new = concat (map (\<lambda>c. if c = old then new else [c]) v)"

definition validate_iso8601 :: "(pystr \<Rightarrow> bool) \<Rightarrow> pystr \<Rightarrow> py_error + pystr" where
  "validate_iso8601 fromiso v =
     (if \<not> endswith v 90 then Inl ValueError
      else if \<not> fromiso (replace v 90 (cps ''+00:00'')) then Inl ValueError
      else Inr v)"

subsection \<open>A reference for \<^verbatim>\<open>datetime.fromisoformat\<close>\<close>

text \<open>
  The format that CPython 3.7 to 3.10 document and read (later versions read further
  forms of ISO 8601 besides):
  \<^verbatim>\<open>YYYY-MM-DD[*HH[:MM[:SS[.fff[fff]]]][+HH:MM[:SS[.ffffff]]]]\<close>, where \<^verbatim>\<open>*\<close> is any
  single character, the date must exist in the proleptic Gregorian calendar with a year
  of at least 1, the time must be a time of day, and the offset must be less than a day.
  It serves to evaluate the validator on concrete timestamps.
\<close>

definition is_digit :: "nat \<Rightarrow> bool" where
  "is_digit c = (48 \<le> c \<and> c \<le> 57)"

definition parse_digits :: "nat \<Rightarrow> pystr \<Rightarrow> (nat \<times> pystr) option" where
  "parse_digits n s =
     (if n \<le> length s \<and> list_all is_digit (take n s)
      then Some (foldl (\<lambda>a c. 10 * a + (c - 48)) 0 (take n s), drop n s)
      else None)"

definition is_leap :: "nat \<Rightarrow> bool" where
  "is_leap y = (y mod 4 = 0 \<and> (y mod 100 \<noteq> 0 \<or> y mod 400 = 0))"

definition days_in_month :: "nat \<Rightarrow> nat \<Rightarrow> nat" where
  "days_in_month y m =
     (if m = 2 then (if is_leap y then 29 else 28)
      else if m = 4 \<or> m = 6 \<or> m = 9 \<or> m = 11 then 30 else 31)"

definition parse_isoformat_date :: "pystr \<Rightarrow> pystr option" where
  "parse_isoformat_date s =
     (case parse_digits 4 s of None \<Rightarrow> None
      | Some (y, s1) \<Rightarrow>
          if s1 = [] \<or> hd s1 \<noteq> 45 then None
          else (case parse_digits 2 (tl s1) of None \<Rightarrow> None
                | Some (m, s2) \<Rightarrow>
                    if s2 = [] \<or> hd s2 \<noteq> 45 then None
                    else (case parse_digits 2 (tl s2) of None \<Rightarrow> None
                          | Some (d, rest) \<Rightarrow>
                              if 1 \<le> y \<and> 1 \<le> m \<and> m \<le> 12 \<and> 1 \<le> d \<and> d \<le> days_in_month y m
                              then Some rest else None)))"

definition parse_hh_mm_ss_ff :: "pystr \<Rightarrow> (nat \<times> nat \<times> nat) option" where
  "parse_hh_mm_ss_ff s =
     (case parse_digits 2 s of None \<Rightarrow> None
      | Some (h, s1) \<Rightarrow>
          if s1 = [] then Some (h, 0, 0)
          else if hd s1 \<noteq> 58 then None
          else (case parse_digits 2 (tl s1) of None \<Rightarrow> None
                | Some (m, s2) \<Rightarrow>
                    if s2 = [] then Some (h, m, 0)
                    else if hd s2 \<noteq> 58 then None
                    else (case parse_digits 2 (tl s2) of None \<Rightarrow> None
                          | Some (sec, s3) \<Rightarrow>
                              if s3 = [] then Some (h, m, sec)
                              else if hd s3 = 46 \<and> list_all is_digit (tl s3) \<and>
                                      (length (tl s3) = 3 \<or> length (tl s3) = 6)
                              then Some (h, m, sec) else None)))"

definition parse_isoformat_time :: "pystr \<Rightarrow> bool" where
  "parse_isoformat_time t =
     (let tm = takeWhile (\<lambda>c. c \<noteq> 43 \<and> c \<noteq> 45) t;
          tz = dropWhile (\<lambda>c. c \<noteq> 43 \<and> c \<noteq> 45) t
      in case parse_hh_mm_ss_ff tm of None \<Rightarrow> False
         | Some (h, m, sec) \<Rightarrow>
             h < 24 \<and> m < 60 \<and> sec < 60 \<and>
             (if tz = [] then True
              else (length tz = 6 \<or> length tz = 9 \<or> length tz = 16) \<and>
                   (case parse_hh_mm_ss_ff (tl tz) of None \<Rightarrow> False
                    | Some (zh, zm, zs) \<Rightarrow> zh * 3600 + zm * 60 + zs < 86400)))"

definition datetime_fromisoformat :: "pystr \<Rightarrow> bool" where
  "datetime_fromisoformat s =
     (case parse_isoformat_date s of None \<Rightarrow> False
      | Some rest \<Rightarrow> if rest = [] then True else parse_isoformat_time (tl rest))"

text \<open>
  The body is a JSON document.  A field of type \<^verbatim>\<open>str\<close> takes a JSON string and
  nothing else; of two members with one name the later one counts; members the model
  does not name are ignored.  Each field is checked on its own and the errors of all
  fields are gathered into one \<^verbatim>\<open>ValidationError\<close>.
\<close>

datatype json =
  JNull | JBool bool | JNumber pystr | JString pystr | JArray "json list"
  | JObject "(pystr \<times> json) list"

datatype error_type =
  json_invalid | model_type | missing | string_type | string_too_short | string_too_long
  | value_error

type_synonym validation_error = "(string \<times> error_type) list"

record webhook_message =
  wm_message_id :: pystr
  wm_from :: pystr
  wm_to :: pystr
  wm_ts :: pystr
  wm_text :: "pystr option"

definition member :: "(pystr \<times> json) list \<Rightarrow> string \<Rightarrow> json option" where
  "member members name = map_of (rev members) (cps name)"

definition after_validator :: "py_error + pystr \<Rightarrow> error_type + pystr" where
  "after_validator r = (case r of Inl _ \<Rightarrow> Inl value_error | Inr v \<Rightarrow> Inr v)"

definition field_message_id :: "(pystr \<times> json) list \<Rightarrow> error_type + pystr" where
  "field_message_id members =
     (case member members ''message_id'' of None \<Rightarrow> Inl missing
      | Some (JString s) \<Rightarrow> if length s < 1 then Inl string_too_short else Inr s
      | Some _ \<Rightarrow> Inl string_type)"

definition field_from :: "(nat \<Rightarrow> bool) \<Rightarrow> (pystr \<times> json) list \<Rightarrow> error_type + pystr" where
  "field_from nd members =
     (case member members ''from'' of None \<Rightarrow> Inl missing
      | Some (JString s) \<Rightarrow> after_validator (validate_e164 nd s)
      | Some _ \<Rightarrow> Inl string_type)"

definition field_to :: "(nat \<Rightarrow> bool) \<Rightarrow> (pystr \<times> json) list \<Rightarrow> error_type + pystr" where
  "field_to nd members =
     (case member members ''to'' of None \<Rightarrow> Inl missing
      | Some (JString s) \<Rightarrow>
          if length s < 1 then Inl string_too_short else after_validator (validate_e164 nd s)
      | Some _ \<Rightarrow> Inl string_type)"

definition field_ts :: "(pystr \<Rightarrow> bool) \<Rightarrow> (pystr \<times> json) list \<Rightarrow> error_type + pystr" where
  "field_ts fromiso members =
     (case member members ''ts'' of None \<Rightarrow> Inl missing
      | Some (JString s) \<Rightarrow> after_validator (validate_iso8601 fromiso s)
      | Some _ \<Rightarrow> Inl string_type)"

definition field_text :: "(pystr \<times> json) list \<Rightarrow> error_type + pystr option" where
  "field_text members =
     (case member members ''text'' of None \<Rightarrow> Inr None
      | Some JNull \<Rightarrow> Inr None
      | Some (JString s) \<Rightarrow> if length s > 4096 then Inl string_too_long else Inr (Some s)
      | Some _ \<Rightarrow> Inl string_type)"

definition errors_of :: "string \<Rightarrow> error_type + 'a \<Rightarrow> validation_error" where
  "errors_of name r = (case r of Inl e \<Rightarrow> [(name, e)] | Inr _ \<Rightarrow> [])"

definition model_validate ::
  "(nat \<Rightarrow> bool) \<Rightarrow> (pystr \<Rightarrow> bool) \<Rightarrow> json \<Rightarrow> validation_error + webhook_message" where
  "model_validate nd fromiso j =
     (case j of
        JObject members \<Rightarrow>
          (let a = field_message_id members; b = field_from nd members; c = field_to nd members;
               d = field_ts fromiso members; e = field_text members
           in case (a, b, c, d, e) of
                (Inr mid, Inr frm, Inr to, Inr tstamp, Inr txt) \<Rightarrow>
                  Inr \<lparr>wm_message_id = mid, wm_from = frm, wm_to = to, wm_ts = tstamp,
                       wm_text = txt\<rparr>
              | _ \<Rightarrow> Inl (errors_of ''message_id'' a @ errors_of ''from'' b @ errors_of ''to'' c @
                          errors_of ''ts'' d @ errors_of ''text'' e))
      | _ \<Rightarrow> Inl [([], model_type)])"

section \<open>The endpoints (\<^verbatim>\<open>app/main.py\<close>)\<close>

text \<open>
  What the application takes from outside the repository: the configured secret
  (\<^verbatim>\<open>settings.WEBHOOK_SECRET.encode()\<close>), HMAC-SHA256 (key, then message), the JSON parser
  behind \<^verbatim>\<open>model_validate_json\<close> (\<open>None\<close> for a body that is not JSON), the table of the
  non-ASCII decimal digits, and \<^verbatim>\<open>datetime.fromisoformat\<close>.
\<close>

record env =
  WEBHOOK_SECRET :: "byte list"
  hmac_sha256 :: "byte list \<Rightarrow> byte list \<Rightarrow> byte list"
  json_loads :: "byte list \<Rightarrow> json option"
  unicode_nd :: "nat \<Rightarrow> bool"
  fromisoformat :: "pystr \<Rightarrow> bool"

subsection \<open>Signature verification\<close>

text \<open>
  \<^verbatim>\<open>hexdigest()\<close> writes each byte as two lowercase hexadecimal digits.
  \<^verbatim>\<open>hmac.compare_digest\<close> on two \<^verbatim>\<open>str\<close> raises \<^verbatim>\<open>TypeError\<close> unless both are ASCII,
  and otherwise tells whether they are equal.
\<close>

definition hex_digit :: "nat \<Rightarrow> nat" where
  "hex_digit n = (if n < 10 then 48 + n else 87 + n)"

definition hexdigest :: "byte list \<Rightarrow> pystr" where
  "hexdigest bs = concat (map (\<lambda>b. [hex_digit (unat b div 16), hex_digit (unat b mod 16)]) bs)"

definition is_ascii :: "pystr \<Rightarrow> bool" where
  "is_ascii s = list_all (\<lambda>c. c < 128) s"

definition compare_digest :: "pystr \<Rightarrow> pystr \<Rightarrow> py_error + bool" where
  "compare_digest a b = (if \<not> (is_ascii a \<and> is_ascii b) then Inl TypeError else Inr (a = b))"

definition verify_signature :: "env \<Rightarrow> byte list \<Rightarrow> pystr \<Rightarrow> py_error + bool" where
  "verify_signature e body signature =
     (let expected = hexdigest (hmac_sha256 e (WEBHOOK_SECRET e) body)
      in compare_digest expected signature)"

subsection \<open>\<^verbatim>\<open>POST /webhook\<close>\<close>

text \<open>
  A request is its raw body and the value of the header \<^verbatim>\<open>X-Signature\<close>, if any; the
  framework decodes header bytes as Latin-1, so each character is below 256.  The handler
  returns the response, the outcome recorded in \<^verbatim>\<open>request.state.result\<close>, and the store.
  An exception that is not an \<^verbatim>\<open>HTTPException\<close> leaves the handler and the framework
  answers 500.
\<close>

record request =
  body :: "byte list"
  x_signature :: "pystr option"

datatype 'a response = HTTP_200 'a | HTTP_401 | HTTP_422 | HTTP_500

datatype status_body = status_ok

datatype outcome = invalid_signature | validation_error | duplicate | created

definition model_validate_json :: "env \<Rightarrow> byte list \<Rightarrow> validation_error + webhook_message" where
  "model_validate_json e b =
     (case json_loads e b of None \<Rightarrow> Inl [([], json_invalid)]
      | Some j \<Rightarrow> model_validate (unicode_nd e) (fromisoformat e) j)"

text \<open>\<^verbatim>\<open>request.headers.get('X-Signature', '')\<close>\<close>

definition get_signature :: "request \<Rightarrow> pystr" where
  "get_signature req = (case x_signature req of None \<Rightarrow> [] | Some s \<Rightarrow> s)"

definition webhook ::
  "env \<Rightarrow> pystr \<Rightarrow> request \<Rightarrow> store \<Rightarrow> status_body response \<times> outcome option \<times> store" where
  "webhook e now req db =
     (let signature = get_signature req
      in case verify_signature e (body req) signature of
           Inl _ \<Rightarrow> (HTTP_500, None, db)
         | Inr False \<Rightarrow> (HTTP_401, Some invalid_signature, db)
         | Inr True \<Rightarrow>
             (case model_validate_json e (body req) of
                Inl _ \<Rightarrow> (HTTP_422, Some validation_error, db)
              | Inr message \<Rightarrow>
                  (case insert_message now (wm_message_id message) (wm_from message)
                          (wm_to message) (wm_ts message) (wm_text message) db of
                     ((success, is_duplicate), db') \<Rightarrow>
                       (HTTP_200 status_ok,
                        Some (if is_duplicate then duplicate else created), db'))))"

subsection \<open>\<^verbatim>\<open>GET /messages\<close>\<close>

text \<open>
  \<^verbatim>\<open>limit: int = Query(default=50, ge=1, le=100)\<close> and
  \<^verbatim>\<open>offset: int = Query(default=0, ge=0)\<close>: a parameter that is absent takes its default,
  one that is present must satisfy its bounds or the framework answers 422 without
  calling the handler.  The three filters are passed on as they come; \<^verbatim>\<open>?from=\<close> arrives
  as the empty string.
\<close>

record messages_list =
  data :: "message list"
  total :: nat
  limit :: int
  offset :: int

definition list_messages ::
  "int option \<Rightarrow> int option \<Rightarrow> pystr option \<Rightarrow> pystr option \<Rightarrow> pystr option \<Rightarrow> store
     \<Rightarrow> messages_list response" where
  "list_messages limit_param offset_param from_param since q db =
     (let lim = (case limit_param of None \<Rightarrow> 50 | Some l \<Rightarrow> l);
          off = (case offset_param of None \<Rightarrow> 0 | Some v \<Rightarrow> v)
      in if \<not> (1 \<le> lim \<and> lim \<le> 100) \<or> \<not> (0 \<le> off) then HTTP_422
         else (case get_messages lim off from_param since q db of
                 Inl _ \<Rightarrow> HTTP_500
               | Inr (messages, n) \<Rightarrow>
                   HTTP_200 \<lparr>data = messages, total = n, limit = lim, offset = off\<rparr>))"

subsection \<open>\<^verbatim>\<open>GET /stats\<close>\<close>

definition get_message_stats :: "store \<Rightarrow> stats response" where
  "get_message_stats db = HTTP_200 (get_stats db)"

section \<open>A sample environment\<close>

text \<open>
  Concrete values for the examples: the secret of the test suite, a stand-in for the
  keyed digest (two bytes: the lengths of key and message), a parser that knows four
  bodies, the Arabic-Indic digits as the non-ASCII decimal digits, and the reference
  reader of timestamps.
\<close>

definition sample_members :: "string \<Rightarrow> string \<Rightarrow> string \<Rightarrow> (pystr \<times> json) list" where
  "sample_members frm tstamp txt =
     [(cps ''message_id'', JString (cps ''m1'')), (cps ''from'', JString (cps frm)),
      (cps ''to'', JString (cps ''+14155550100'')), (cps ''ts'', JString (cps tstamp)),
      (cps ''text'', JString (cps txt))]"

definition sample_payload :: "string \<Rightarrow> string \<Rightarrow> string \<Rightarrow> json" where
  "sample_payload frm tstamp txt = JObject (sample_members frm tstamp txt)"

definition sample_loads :: "byte list \<Rightarrow> json option" where
  "sample_loads b =
     (if b = [1] then Some (sample_payload ''+919876543210'' ''2025-01-15T10:00:00Z'' ''Hello'')
      else if b = [2, 2]
      then Some (sample_payload ''+911234567890'' ''2025-01-15T11:00:00Z'' ''Bye'')
      else if b = [3]
      then Some (sample_payload ''+123\<newline>'' ''2025-01-15T10:00:00Z'' ''Hello'')
      else if b = [4] then Some (sample_payload ''+919876543210'' ''2025-01-15ZZ'' ''Hello'')
      else None)"

definition sample_env :: env where
  "sample_env =
     \<lparr>WEBHOOK_SECRET = map of_char ''testsecret'',
      hmac_sha256 = (\<lambda>key msg. [of_nat (length key), of_nat (length msg)]),
      json_loads = sample_loads,
      unicode_nd = (\<lambda>c. 1632 \<le> c \<and> c \<le> 1641),
      fromisoformat = datetime_fromisoformat\<rparr>"

definition sample_request :: "byte list \<Rightarrow> string \<Rightarrow> request" where
  "sample_request b sg = \<lparr>body = b, x_signature = Some (cps sg)\<rparr>"

definition sample_message :: "string \<Rightarrow> string \<Rightarrow> string \<Rightarrow> webhook_message" where
  "sample_message frm tstamp txt =
     \<lparr>wm_message_id = cps ''m1'', wm_from = cps frm, wm_to = cps ''+14155550100'',
      wm_ts = cps tstamp, wm_text = Some (cps txt)\<rparr>"

definition sample_row :: "string \<Rightarrow> string \<Rightarrow> string \<Rightarrow> string \<Rightarrow> row" where
  "sample_row mid frm tstamp txt =
     \<lparr>message_id = cps mid, from_msisdn = cps frm, to_msisdn = cps ''+14155550100'',
      ts = cps tstamp, text_col = Some (cps txt), created_at = cps ''2025-01-16T00:00:00Z''\<rparr>"

definition sample_db :: store where
  "sample_db =
     [sample_row ''m2'' ''+919876543210'' ''2025-01-15T10:00:00Z'' ''Second with Hello'',
      sample_row ''m1'' ''+919876543210'' ''2025-01-15T09:00:00Z'' ''First'',
      sample_row ''m3'' ''+911234567890'' ''2025-01-15T10:00:00Z'' ''Different sender'']"

section \<open>Notions used in the statements\<close>

text \<open>The row that a first insert of a validated message writes at clock reading \<open>now\<close>.\<close>

definition new_row :: "pystr \<Rightarrow> webhook_message \<Rightarrow> row" where
  "new_row now m =
     \<lparr>message_id = wm_message_id m, from_msisdn = wm_from m, to_msisdn = wm_to m,
      ts = wm_ts m, text_col = wm_text m, created_at = now @ cps ''Z''\<rparr>"

text \<open>
  \<open>substring q t\<close> is Python's \<^verbatim>\<open>q in t\<close>; \<open>icontains\<close> is the same test after folding
  the ASCII letters to lower case.  \<open>plain_query\<close> says that a text query holds none of
  \<^verbatim>\<open>%\<close>, \<^verbatim>\<open>_\<close> and U+0000 and, between two \<^verbatim>\<open>%\<close>, stays within the length that SQLite
  takes.
\<close>

fun substring :: "pystr \<Rightarrow> pystr \<Rightarrow> bool" where
  "substring q [] = (q = [])"
| "substring q (c # cs) = (take (length q) (c # cs) = q \<or> substring q cs)"

definition icontains :: "pystr \<Rightarrow> pystr \<Rightarrow> bool" where
  "icontains q t = substring (map ascii_lower q) (map ascii_lower t)"

definition plain_query :: "pystr option \<Rightarrow> bool" where
  "plain_query q =
     (case q of None \<Rightarrow> True
      | Some s \<Rightarrow> list_all (\<lambda>c. c \<noteq> 37 \<and> c \<noteq> 95 \<and> c \<noteq> 0) s \<and> utf8_length s + 2 \<le> 50000)"

text \<open>
  The filter condition in words: the sender equals the sender filter, the timestamp is
  not below the lower bound, and the text, as far as its first U+0000 if it has one,
  holds the query up to the case of ASCII letters; a filter that is absent or empty asks
  nothing.
\<close>

definition matches :: "pystr option \<Rightarrow> pystr option \<Rightarrow> pystr option \<Rightarrow> row \<Rightarrow> bool" where
  "matches from_filter since q r =
     ((if truthy from_filter then from_msisdn r = the from_filter else True) \<and>
      (if truthy since then the since \<le> ts r else True) \<and>
      (if truthy q
       then (case text_col r of None \<Rightarrow> False | Some t \<Rightarrow> icontains (the q) (c_str t))
       else True))"

text \<open>The condition of the claim as the specification words it: an exact substring.\<close>

definition spec_text_matches :: "pystr \<Rightarrow> row \<Rightarrow> bool" where
  "spec_text_matches q r = (case text_col r of None \<Rightarrow> False | Some t \<Rightarrow> substring q t)"

section \<open>Evaluation on the samples\<close>

lemmas sample_defs = sample_db_def sample_row_def cps_def

lemmas iso_defs =
  datetime_fromisoformat_def parse_isoformat_date_def parse_isoformat_time_def
  parse_hh_mm_ss_ff_def parse_digits_def is_digit_def days_in_month_def is_leap_def

lemmas signature_defs =
  verify_signature_def compare_digest_def is_ascii_def hexdigest_def hex_digit_def
  sample_env_def cps_def

lemma sample_signature_1: "verify_signature sample_env [1] (cps ''0a01'') = Inr True"
  by (simp add: signature_defs)

lemma sample_signature_2: "verify_signature sample_env [2, 2] (cps ''0a02'') = Inr True"
  by (simp add: signature_defs)

lemma sample_signature_bad: "verify_signature sample_env [1] (cps ''invalid123'') = Inr False"
  by (simp add: signature_defs)

lemma iso_10: "datetime_fromisoformat (cps ''2025-01-15T10:00:00+00:00'')"
  by (simp add: iso_defs cps_def)

lemma iso_11: "datetime_fromisoformat (cps ''2025-01-15T11:00:00+00:00'')"
  by (simp add: iso_defs cps_def)

lemma sample_member:
  "member (sample_members frm tstamp txt) ''message_id'' = Some (JString (cps ''m1''))"
  "member (sample_members frm tstamp txt) ''from'' = Some (JString (cps frm))"
  "member (sample_members frm tstamp txt) ''to'' = Some (JString (cps ''+14155550100''))"
  "member (sample_members frm tstamp txt) ''ts'' = Some (JString (cps tstamp))"
  "member (sample_members frm tstamp txt) ''text'' = Some (JString (cps txt))"
  by (simp_all add: member_def sample_members_def) (simp_all add: cps_def)

lemma sample_to: "validate_e164 nd (cps ''+14155550100'') = Inr (cps ''+14155550100'')"
  by (simp add: validate_e164_def re_match_e164_def re_digit_def cps_def)

lemma sample_model_validate:
  assumes "validate_e164 nd (cps frm) = Inr (cps frm)"
    and "validate_iso8601 fi (cps tstamp) = Inr (cps tstamp)"
    and "length txt \<le> 4096"
  shows "model_validate nd fi (sample_payload frm tstamp txt) = Inr (sample_message frm tstamp txt)"
proof -
  let ?ms = "sample_members frm tstamp txt"
  have a: "field_message_id ?ms = Inr (cps ''m1'')"
    by (simp add: field_message_id_def sample_member) (simp add: cps_def)
  have b: "field_from nd ?ms = Inr (cps frm)"
    by (simp add: field_from_def sample_member assms(1) after_validator_def)
  have c: "field_to nd ?ms = Inr (cps ''+14155550100'')"
    by (simp add: field_to_def sample_member sample_to after_validator_def) (simp add: cps_def)
  have d: "field_ts fi ?ms = Inr (cps tstamp)"
    by (simp add: field_ts_def sample_member assms(2) after_validator_def)
  have e: "field_text ?ms = Inr (Some (cps txt))"
    using assms(3) by (simp add: field_text_def sample_member cps_def)
  show ?thesis
    by (simp add: model_validate_def sample_payload_def sample_message_def a b c d e)
qed

lemma sample_from: "validate_e164 nd (cps ''+919876543210'') = Inr (cps ''+919876543210'')"
  "validate_e164 nd (cps ''+911234567890'') = Inr (cps ''+911234567890'')"
  by (simp_all add: validate_e164_def re_match_e164_def re_digit_def cps_def)

lemma sample_ts:
  "validate_iso8601 datetime_fromisoformat (cps ''2025-01-15T10:00:00Z'') = Inr (cps ''2025-01-15T10:00:00Z'')"
  "validate_iso8601 datetime_fromisoformat (cps ''2025-01-15T11:00:00Z'') = Inr (cps ''2025-01-15T11:00:00Z'')"
proof -
  have r: "replace (cps ''2025-01-15T10:00:00Z'') 90 (cps ''+00:00'') = cps ''2025-01-15T10:00:00+00:00''"
    "replace (cps ''2025-01-15T11:00:00Z'') 90 (cps ''+00:00'') = cps ''2025-01-15T11:00:00+00:00''"
    by (simp_all add: replace_def cps_def)
  show "validate_iso8601 datetime_fromisoformat (cps ''2025-01-15T10:00:00Z'') = Inr (cps ''2025-01-15T10:00:00Z'')"
    by (simp add: validate_iso8601_def r iso_10) (simp add: endswith_def cps_def)
  show "validate_iso8601 datetime_fromisoformat (cps ''2025-01-15T11:00:00Z'') = Inr (cps ''2025-01-15T11:00:00Z'')"
    by (simp add: validate_iso8601_def r iso_11) (simp add: endswith_def cps_def)
qed

lemma sample_validate_1:
  "model_validate_json sample_env [1] =
     Inr (sample_message ''+919876543210'' ''2025-01-15T10:00:00Z'' ''Hello'')"
  by (simp add: model_validate_json_def sample_env_def sample_loads_def
        sample_model_validate [OF sample_from(1) sample_ts(1)])

lemma sample_validate_2:
  "model_validate_json sample_env [2, 2] =
     Inr (sample_message ''+911234567890'' ''2025-01-15T11:00:00Z'' ''Bye'')"
  by (simp add: model_validate_json_def sample_env_def sample_loads_def
        sample_model_validate [OF sample_from(2) sample_ts(2)])


lemma sample_all:
  "get_messages 50 0 None None None sample_db =
     Inr (map to_dict [sample_db ! 1, sample_db ! 0, sample_db ! 2], 3)"
  by (simp add: get_messages_def where_clauses_def where_sql_def truthy_def like_raises_def
        sqlite_integer_def limit_offset_def order_by_def sample_defs)

section \<open>The webhook\<close>

lemma webhook_valid:
  assumes "verify_signature e (body r) (get_signature r) = Inr True"
    and "model_validate_json e (body r) = Inr m"
  shows "webhook e t r db =
     (if wm_message_id m \<in> set (map message_id db)
      then (HTTP_200 status_ok, Some duplicate, db)
      else (HTTP_200 status_ok, Some created, db @ [new_row t m]))"
  using assms by (simp add: webhook_def insert_message_def new_row_def Let_def)

lemma filter_absent:
  "k \<notin> set (map message_id db) \<Longrightarrow> filter (\<lambda>r. message_id r = k) db = []"
  by (induction db) auto

lemma primary_key_one:
  "primary_key db \<Longrightarrow> k \<in> set (map message_id db) \<Longrightarrow>
   length (filter (\<lambda>r. message_id r = k) db) = 1"
  unfolding primary_key_def
proof (induction db)
  case Nil
  then show ?case by simp
next
  case (Cons a db)
  show ?case
  proof (cases "message_id a = k")
    case True
    with Cons.prems have "k \<notin> set (map message_id db)" by auto
    then show ?thesis using True by (simp add: filter_absent)
  next
    case False
    then show ?thesis using Cons by auto
  qed
qed

text \<open>The handler keeps the primary key constraint, whatever the request.\<close>

lemma webhook_primary_key:
  "primary_key db \<Longrightarrow> primary_key (snd (snd (webhook e t r db)))"
  by (auto simp add: webhook_def insert_message_def primary_key_def Let_def
        split: sum.splits bool.splits)

text \<open>
  C1: two requests that pass verification and validation and carry one
  \<^verbatim>\<open>message_id\<close> are both answered 200 with \<^verbatim>\<open>{"status":"ok"}\<close>, whatever their
  other fields; the second leaves the store as the first left it, which holds exactly
  one row under that key, and when the first request inserted the row its fields are
  those of the first request and its \<^verbatim>\<open>created_at\<close> is the first clock reading.
\<close>

theorem webhook_idempotent:
  assumes sig1: "verify_signature e (body r1) (get_signature r1) = Inr True"
    and val1: "model_validate_json e (body r1) = Inr m1"
    and sig2: "verify_signature e (body r2) (get_signature r2) = Inr True"
    and val2: "model_validate_json e (body r2) = Inr m2"
    and same: "wm_message_id m2 = wm_message_id m1"
    and pk: "primary_key db"
    and db1: "db1 = snd (snd (webhook e t1 r1 db))"
  shows "fst (webhook e t1 r1 db) = HTTP_200 status_ok \<and>
         fst (webhook e t2 r2 db1) = HTTP_200 status_ok \<and>
         snd (snd (webhook e t2 r2 db1)) = db1 \<and>
         length (filter (\<lambda>r. message_id r = wm_message_id m1) db1) = 1 \<and>
         (wm_message_id m1 \<notin> set (map message_id db) \<longrightarrow>
            filter (\<lambda>r. message_id r = wm_message_id m1) db1 =
              [\<lparr>message_id = wm_message_id m1, from_msisdn = wm_from m1, to_msisdn = wm_to m1,
                ts = wm_ts m1, text_col = wm_text m1, created_at = t1 @ cps ''Z''\<rparr>])"
proof (cases "wm_message_id m1 \<in> set (map message_id db)")
  case True
  then have w1: "webhook e t1 r1 db = (HTTP_200 status_ok, Some duplicate, db)"
    by (simp add: webhook_valid [OF sig1 val1])
  then have eq: "db1 = db" by (simp add: db1)
  have w2: "webhook e t2 r2 db = (HTTP_200 status_ok, Some duplicate, db)"
    using True same by (simp add: webhook_valid [OF sig2 val2])
  show ?thesis using True w1 w2 pk by (simp add: eq primary_key_one)
next
  case False
  then have w1: "webhook e t1 r1 db = (HTTP_200 status_ok, Some created, db @ [new_row t1 m1])"
    by (simp add: webhook_valid [OF sig1 val1])
  then have eq: "db1 = db @ [new_row t1 m1]" by (simp add: db1)
  have mem: "wm_message_id m2 \<in> set (map message_id db1)"
    by (simp add: eq same new_row_def)
  have w2: "webhook e t2 r2 db1 = (HTTP_200 status_ok, Some duplicate, db1)"
    using mem by (simp add: webhook_valid [OF sig2 val2])
  have flt: "filter (\<lambda>r. message_id r = wm_message_id m1) db1 = [new_row t1 m1]"
    using False by (simp add: eq filter_absent) (simp add: new_row_def)
  show ?thesis using False w1 w2 flt by (simp add: new_row_def)
qed

text \<open>
  The sample: the bodies \<open>[1]\<close> and \<open>[2, 2]\<close> carry the key \<^verbatim>\<open>m1\<close> with different
  senders, timestamps and texts.
\<close>

theorem webhook_idempotent_witness:
  "webhook sample_env (cps ''2025-01-16T08:00:00'') (sample_request [1] ''0a01'')
       [sample_row ''m2'' ''+919876543210'' ''2025-01-15T10:00:00Z'' ''Second'']
     = (HTTP_200 status_ok, Some created,
        [sample_row ''m2'' ''+919876543210'' ''2025-01-15T10:00:00Z'' ''Second'',
         new_row (cps ''2025-01-16T08:00:00'')
           (sample_message ''+919876543210'' ''2025-01-15T10:00:00Z'' ''Hello'')]) \<and>
   fst (webhook sample_env (cps ''2025-01-16T09:00:00'') (sample_request [2, 2] ''0a02'')
       [sample_row ''m2'' ''+919876543210'' ''2025-01-15T10:00:00Z'' ''Second'',
        new_row (cps ''2025-01-16T08:00:00'')
          (sample_message ''+919876543210'' ''2025-01-15T10:00:00Z'' ''Hello'')])
     = HTTP_200 status_ok \<and>
   snd (snd (webhook sample_env (cps ''2025-01-16T09:00:00'') (sample_request [2, 2] ''0a02'')
       [sample_row ''m2'' ''+919876543210'' ''2025-01-15T10:00:00Z'' ''Second'',
        new_row (cps ''2025-01-16T08:00:00'')
          (sample_message ''+919876543210'' ''2025-01-15T10:00:00Z'' ''Hello'')]))
     = [sample_row ''m2'' ''+919876543210'' ''2025-01-15T10:00:00Z'' ''Second'',
        new_row (cps ''2025-01-16T08:00:00'')
          (sample_message ''+919876543210'' ''2025-01-15T10:00:00Z'' ''Hello'')] \<and>
   filter (\<lambda>r. message_id r = cps ''m1'')
       [sample_row ''m2'' ''+919876543210'' ''2025-01-15T10:00:00Z'' ''Second'',
        new_row (cps ''2025-01-16T08:00:00'')
          (sample_message ''+919876543210'' ''2025-01-15T10:00:00Z'' ''Hello'')]
     = [new_row (cps ''2025-01-16T08:00:00'')
          (sample_message ''+919876543210'' ''2025-01-15T10:00:00Z'' ''Hello'')]"
proof -
  let ?db = "[sample_row ''m2'' ''+919876543210'' ''2025-01-15T10:00:00Z'' ''Second'']"
  let ?m1 = "sample_message ''+919876543210'' ''2025-01-15T10:00:00Z'' ''Hello''"
  let ?m2 = "sample_message ''+911234567890'' ''2025-01-15T11:00:00Z'' ''Bye''"
  let ?r1 = "sample_request [1] ''0a01''" and ?r2 = "sample_request [2, 2] ''0a02''"
  let ?t1 = "cps ''2025-01-16T08:00:00''" and ?t2 = "cps ''2025-01-16T09:00:00''"
  have sig1: "verify_signature sample_env (body ?r1) (get_signature ?r1) = Inr True"
    by (simp add: sample_request_def get_signature_def sample_signature_1)
  have val1: "model_validate_json sample_env (body ?r1) = Inr ?m1"
    by (simp add: sample_request_def sample_validate_1)
  have sig2: "verify_signature sample_env (body ?r2) (get_signature ?r2) = Inr True"
    by (simp add: sample_request_def get_signature_def sample_signature_2)
  have val2: "model_validate_json sample_env (body ?r2) = Inr ?m2"
    by (simp add: sample_request_def sample_validate_2)
  have same: "wm_message_id ?m2 = wm_message_id ?m1"
    by (simp add: sample_message_def)
  have pk: "primary_key ?db"
    by (simp add: primary_key_def)
  have fresh: "wm_message_id ?m1 \<notin> set (map message_id ?db)"
    by (simp add: sample_message_def sample_row_def cps_def)
  have w1: "webhook sample_env ?t1 ?r1 ?db = (HTTP_200 status_ok, Some created, ?db @ [new_row ?t1 ?m1])"
    using fresh by (simp add: webhook_valid [OF sig1 val1])
  then have db1: "?db @ [new_row ?t1 ?m1] = snd (snd (webhook sample_env ?t1 ?r1 ?db))"
    by simp
  have id1: "wm_message_id ?m1 = cps ''m1''"
    by (simp add: sample_message_def)
  show ?thesis
    using webhook_idempotent [OF sig1 val1 sig2 val2 same pk db1, of ?t2] fresh w1
    by (simp add: id1 new_row_def)
qed

section \<open>Signatures\<close>

lemma hex_digit_ascii: "n < 16 \<Longrightarrow> hex_digit n < 128"
  by (simp add: hex_digit_def)

lemma is_ascii_hexdigest: "is_ascii (hexdigest bs)"
proof (induction bs)
  case Nil
  then show ?case by (simp add: is_ascii_def hexdigest_def)
next
  case (Cons b bs)
  have "unat b < 256" using unsigned_less [of b, where ?'a = nat] by simp
  then have "unat b div 16 < 16" "unat b mod 16 < 16" by simp_all
  then have "hex_digit (unat b div 16) < 128" "hex_digit (unat b mod 16) < 128"
    by (simp_all add: hex_digit_ascii)
  then show ?case using Cons by (simp add: is_ascii_def hexdigest_def)
qed

text \<open>On an ASCII signature the check returns, and answers whether it is the digest.\<close>

lemma verify_signature_ascii:
  "is_ascii sg \<Longrightarrow>
   verify_signature e b sg = Inr (sg = hexdigest (hmac_sha256 e (WEBHOOK_SECRET e) b))"
  by (auto simp add: verify_signature_def compare_digest_def is_ascii_hexdigest)

lemma verify_signature_empty:
  "hmac_sha256 e (WEBHOOK_SECRET e) b \<noteq> [] \<Longrightarrow> verify_signature e b [] = Inr False"
  by (cases "hmac_sha256 e (WEBHOOK_SECRET e) b")
     (simp_all add: verify_signature_def compare_digest_def is_ascii_hexdigest,
      simp_all add: is_ascii_def hexdigest_def)

lemma verify_signature_not_ascii:
  "\<not> is_ascii sg \<Longrightarrow> verify_signature e b sg = Inl TypeError"
  by (simp add: verify_signature_def compare_digest_def)

text \<open>
  C2: the signature made of the one character U+00E9, which the header can carry, is
  not ASCII: \<^verbatim>\<open>hmac.compare_digest\<close> raises \<^verbatim>\<open>TypeError\<close>, so \<^verbatim>\<open>verify_signature\<close>
  returns no boolean and the endpoint answers 500 where the claim has \<^verbatim>\<open>False\<close> and 401.
\<close>

theorem verify_signature_raises:
  "verify_signature e b [233] = Inl TypeError \<and>
   webhook e now \<lparr>body = b, x_signature = Some [233]\<rparr> db = (HTTP_500, None, db)"
  by (simp add: verify_signature_def compare_digest_def is_ascii_def webhook_def
        get_signature_def)

section \<open>Validators\<close>

text \<open>What the pattern accepts: a plus, digits, and possibly one final newline.\<close>

lemma re_match_e164_iff:
  "re_match_e164 nd v \<longleftrightarrow>
     (\<exists>ds. ds \<noteq> [] \<and> list_all (re_digit nd) ds \<and> (v = 43 # ds \<or> v = 43 # ds @ [10]))"
proof
  assume m: "re_match_e164 nd v"
  then obtain cs where v: "v = 43 # cs" and ne: "takeWhile (re_digit nd) cs \<noteq> []"
    and dw: "dropWhile (re_digit nd) cs = [] \<or> dropWhile (re_digit nd) cs = [10]"
    by (auto simp add: re_match_e164_def split: list.splits)
  let ?ds = "takeWhile (re_digit nd) cs"
  have all: "list_all (re_digit nd) ?ds"
    by (simp add: list_all_iff) (meson set_takeWhileD)
  have "cs = ?ds @ dropWhile (re_digit nd) cs" by simp
  with dw have "cs = ?ds \<or> cs = ?ds @ [10]" by (metis append_Nil2)
  with v ne all show "\<exists>ds. ds \<noteq> [] \<and> list_all (re_digit nd) ds \<and> (v = 43 # ds \<or> v = 43 # ds @ [10])"
    by blast
next
  assume "\<exists>ds. ds \<noteq> [] \<and> list_all (re_digit nd) ds \<and> (v = 43 # ds \<or> v = 43 # ds @ [10])"
  then obtain ds where ne: "ds \<noteq> []" and all: "list_all (re_digit nd) ds"
    and v: "v = 43 # ds \<or> v = 43 # ds @ [10]" by blast
  from all have tw: "takeWhile (re_digit nd) ds = ds" "dropWhile (re_digit nd) ds = []"
    by (simp_all add: list_all_iff takeWhile_eq_all_conv)
  from tw(1) ne have t1: "takeWhile (re_digit nd) ds \<noteq> []" by metis
  from v show "re_match_e164 nd v"
  proof
    assume "v = 43 # ds"
    then show ?thesis using t1 tw(2) by (simp only: re_match_e164_def list.case) simp
  next
    assume v': "v = 43 # ds @ [10]"
    show ?thesis
    proof (cases "re_digit nd 10")
      case True
      then have "takeWhile (re_digit nd) (ds @ [10]) = ds @ [10]"
        "dropWhile (re_digit nd) (ds @ [10]) = []"
        using all by (simp_all add: list_all_iff takeWhile_eq_all_conv)
      then show ?thesis using v' by (simp only: re_match_e164_def list.case) simp
    next
      case False
      then have "takeWhile (re_digit nd) (ds @ [10]) = ds"
        "dropWhile (re_digit nd) (ds @ [10]) = [10]"
        using all by (simp_all add: list_all_iff takeWhile_append dropWhile_append)
      then show ?thesis using v' ne by (simp only: re_match_e164_def list.case) simp
    qed
  qed
qed

lemma validate_e164_unicode_digit:
  "nd 1633 \<Longrightarrow> validate_e164 nd [43, 1633] = Inr [43, 1633]"
  by (simp add: validate_e164_def re_match_e164_def re_digit_def)

text \<open>
  C3: the value \<^verbatim>\<open>"+123\n"\<close> is not a plus followed by digits and nothing else, yet the
  pattern matches it, since \<^verbatim>\<open>$\<close> also matches before a final newline: the validator
  returns the value, and the request that carries it is answered 200 and stored, where
  the claim has 422.
\<close>

theorem validate_e164_trailing_newline:
  "validate_e164 nd (cps ''+123'' @ [10]) = Inr (cps ''+123'' @ [10]) \<and>
   webhook sample_env (cps ''2025-01-16T08:00:00'') (sample_request [3] ''0a01'') [] =
     (HTTP_200 status_ok, Some created,
      [new_row (cps ''2025-01-16T08:00:00'')
         (sample_message ''+123\<newline>'' ''2025-01-15T10:00:00Z'' ''Hello'')])"
proof -
  have v: "validate_e164 nd (cps ''+123'' @ [10]) = Inr (cps ''+123'' @ [10])" for nd
    by (simp add: validate_e164_def re_match_e164_def re_digit_def cps_def)
  have v': "validate_e164 nd (cps ''+123\<newline>'') = Inr (cps ''+123\<newline>'')"
    for nd
    by (simp add: validate_e164_def re_match_e164_def re_digit_def cps_def)
  have val: "model_validate_json sample_env (body (sample_request [3] ''0a01'')) =
      Inr (sample_message ''+123\<newline>'' ''2025-01-15T10:00:00Z'' ''Hello'')"
    by (simp add: sample_request_def model_validate_json_def sample_env_def sample_loads_def
          sample_model_validate [OF v' sample_ts(1)])
  have sg: "verify_signature sample_env (body (sample_request [3] ''0a01''))
      (get_signature (sample_request [3] ''0a01'')) = Inr True"
    by (simp add: sample_request_def get_signature_def signature_defs)
  show ?thesis using v by (simp add: webhook_valid [OF sg val])
qed

text \<open>The timestamp validator accepts exactly the values that end in \<^verbatim>\<open>Z\<close> and are read
  after every \<^verbatim>\<open>Z\<close> has been rewritten.\<close>

lemma validate_iso8601_iff:
  "validate_iso8601 fi v = Inr v \<longleftrightarrow> endswith v 90 \<and> fi (replace v 90 (cps ''+00:00''))"
  "validate_iso8601 fi v = Inr v \<or> validate_iso8601 fi v = Inl ValueError"
  by (simp_all add: validate_iso8601_def)

lemma replace_trailing_only:
  "90 \<notin> set u \<Longrightarrow> replace (u @ [90]) 90 new = u @ new"
  by (induction u) (simp_all add: replace_def)

text \<open>
  C4: in \<^verbatim>\<open>2025-01-15ZZ\<close> both letters are rewritten, not the last one alone; the result
  \<^verbatim>\<open>2025-01-15+00:00+00:00\<close> reads as a date, a separator, a time and an offset, so the
  validator returns the value and the request is answered 200 and stored.  With the
  final \<^verbatim>\<open>Z\<close> alone rewritten the string is \<^verbatim>\<open>2025-01-15Z+00:00\<close>, which does not read:
  the claim has 422.
\<close>

theorem validate_iso8601_double_Z:
  "validate_iso8601 datetime_fromisoformat (cps ''2025-01-15ZZ'') = Inr (cps ''2025-01-15ZZ'') \<and>
   \<not> datetime_fromisoformat (cps ''2025-01-15Z'' @ cps ''+00:00'') \<and>
   webhook sample_env (cps ''2025-01-16T08:00:00'') (sample_request [4] ''0a01'') [] =
     (HTTP_200 status_ok, Some created,
      [new_row (cps ''2025-01-16T08:00:00'')
         (sample_message ''+919876543210'' ''2025-01-15ZZ'' ''Hello'')])"
proof -
  have r: "replace (cps ''2025-01-15ZZ'') 90 (cps ''+00:00'') = cps ''2025-01-15+00:00+00:00''"
    by (simp add: replace_def cps_def)
  have p: "datetime_fromisoformat (cps ''2025-01-15+00:00+00:00'')"
    by (simp add: iso_defs cps_def)
  have n: "\<not> datetime_fromisoformat (cps ''2025-01-15Z'' @ cps ''+00:00'')"
    by (simp add: iso_defs cps_def)
  have v: "validate_iso8601 datetime_fromisoformat (cps ''2025-01-15ZZ'') = Inr (cps ''2025-01-15ZZ'')"
    by (simp add: validate_iso8601_def r p) (simp add: endswith_def cps_def)
  have val: "model_validate_json sample_env (body (sample_request [4] ''0a01'')) =
      Inr (sample_message ''+919876543210'' ''2025-01-15ZZ'' ''Hello'')"
    by (simp add: sample_request_def model_validate_json_def sample_env_def sample_loads_def
          sample_model_validate [OF sample_from(1) v])
  have sg: "verify_signature sample_env (body (sample_request [4] ''0a01''))
      (get_signature (sample_request [4] ''0a01'')) = Inr True"
    by (simp add: sample_request_def get_signature_def signature_defs)
  show ?thesis using v n by (simp add: webhook_valid [OF sg val])
qed

section \<open>Requests that fail verification\<close>

text \<open>
  When the verifier answers \<^verbatim>\<open>False\<close> the endpoint responds 401 and leaves the store as
  it was, whatever the JSON parser, the digit table, the timestamp reader and the clock
  are: neither validation nor insertion takes part.  The store is also unchanged
  whenever the verifier does not answer \<^verbatim>\<open>True\<close>.
\<close>

theorem webhook_unauthorized:
  "(verify_signature e (body req) (get_signature req) = Inr False \<longrightarrow>
      webhook e now req db = (HTTP_401, Some invalid_signature, db) \<and>
      webhook (e\<lparr>json_loads := jl, unicode_nd := nd, fromisoformat := fi\<rparr>) now' req db =
        (HTTP_401, Some invalid_signature, db)) \<and>
   (verify_signature e (body req) (get_signature req) \<noteq> Inr True \<longrightarrow>
      snd (snd (webhook e now req db)) = db)"
  by (auto simp add: webhook_def verify_signature_def Let_def split: sum.splits bool.splits)

theorem webhook_unauthorized_witness:
  "verify_signature sample_env (body (sample_request [1] ''invalid123''))
      (get_signature (sample_request [1] ''invalid123'')) = Inr False \<and>
   webhook sample_env (cps ''2025-01-16T08:00:00'') (sample_request [1] ''invalid123'') sample_db
     = (HTTP_401, Some invalid_signature, sample_db)"
proof -
  have "verify_signature sample_env (body (sample_request [1] ''invalid123''))
      (get_signature (sample_request [1] ''invalid123'')) = Inr False"
    by (simp add: sample_request_def get_signature_def sample_signature_bad)
  then show ?thesis
    using webhook_unauthorized [of sample_env "sample_request [1] ''invalid123''"
        "cps ''2025-01-16T08:00:00''" sample_db]
    by simp
qed

text \<open>
  C9: the signature made of the one character U+00E9 is not the digest and does not
  pass verification, yet the endpoint does not respond 401: \<^verbatim>\<open>hmac.compare_digest\<close>
  raises \<^verbatim>\<open>TypeError\<close> inside \<^verbatim>\<open>verify_signature\<close>, the handler never reaches its
  \<^verbatim>\<open>HTTPException(status_code=401)\<close> and the request is answered 500.  Validation and
  insertion are not reached and the store is unchanged, as the claim has it.
\<close>

theorem webhook_non_ascii_signature:
  "verify_signature e b [233] \<noteq> Inr True \<and>
   fst (webhook e now \<lparr>body = b, x_signature = Some [233]\<rparr> db) = HTTP_500 \<and>
   fst (webhook e now \<lparr>body = b, x_signature = Some [233]\<rparr> db) \<noteq> HTTP_401 \<and>
   snd (snd (webhook e now \<lparr>body = b, x_signature = Some [233]\<rparr> db)) = db"
proof -
  have v: "verify_signature e b [233] = Inl TypeError"
    by (simp add: verify_signature_def compare_digest_def is_ascii_def)
  then have "webhook e now \<lparr>body = b, x_signature = Some [233]\<rparr> db = (HTTP_500, None, db)"
    by (simp add: webhook_def get_signature_def)
  with v show ?thesis by simp
qed

section \<open>Listing\<close>

lemma where_clauses_empty:
  "where_clauses (if f = Some [] then None else f) (if s = Some [] then None else s)
      (if q = Some [] then None else q) = where_clauses f s q"
  by (simp add: where_clauses_def truthy_def)

text \<open>
  C10: a filter that is present and empty acts as one that is absent, in the store's
  listing and in the endpoint: replacing every empty filter by \<^verbatim>\<open>None\<close> changes neither
  the data nor the total.
\<close>

theorem empty_filter_is_omitted:
  "get_messages lim off f s q db =
     get_messages lim off (if f = Some [] then None else f) (if s = Some [] then None else s)
       (if q = Some [] then None else q) db \<and>
   list_messages limit_param offset_param f s q db =
     list_messages limit_param offset_param (if f = Some [] then None else f)
       (if s = Some [] then None else s) (if q = Some [] then None else q) db"
proof -
  let ?f = "if f = Some [] then None else f" and ?s = "if s = Some [] then None else s"
  let ?q = "if q = Some [] then None else q"
  have c: "where_clauses ?f ?s ?q = where_clauses f s q"
    by (rule where_clauses_empty)
  have "where_clauses ?f ?s None = where_clauses f s None"
    using where_clauses_empty [of f s None] by simp
  then have r: "like_raises ?f ?s ?q db = like_raises f s q db"
    by (simp add: like_raises_def truthy_def)
  have g: "get_messages lim off ?f ?s ?q db = get_messages lim off f s q db" for lim off
    by (simp only: get_messages_def c r)
  show ?thesis
    by (simp only: list_messages_def g)
qed

theorem empty_filter_is_omitted_witness:
  "list_messages None None (Some []) (Some []) (Some []) sample_db =
     list_messages None None None None None sample_db \<and>
   list_messages None None None None None sample_db =
     HTTP_200 \<lparr>data = map to_dict [sample_db ! 1, sample_db ! 0, sample_db ! 2], total = 3,
               limit = 50, offset = 0\<rparr>"
  using empty_filter_is_omitted [of _ _ "Some []" "Some []" "Some []" sample_db None None]
  by (simp add: list_messages_def sample_all)

lemma sorted_order_by: "sorted (map (\<lambda>r. (ts r, message_id r)) (order_by rs))"
  unfolding order_by_def by (rule sorted_sort_key)

lemma sorted_limit_offset: "sorted (map f xs) \<Longrightarrow> sorted (map f (limit_offset lim off xs))"
  by (simp add: limit_offset_def Let_def sorted_wrt_take sorted_wrt_drop
        flip: take_map drop_map)

text \<open>
  The listing returns whenever the two integers fit SQLite's integer and the pattern is
  not refused.
\<close>

lemma get_messages_returns:
  "sqlite_integer lim \<Longrightarrow> sqlite_integer off \<Longrightarrow> \<not> like_raises f s q db \<Longrightarrow>
   \<exists>page n. get_messages lim off f s q db = Inr (page, n)"
  by (simp add: get_messages_def Let_def)

text \<open>
  C6: in a page that the listing returns, each message and the next one are in
  ascending order of the pair of timestamp and \<^verbatim>\<open>message_id\<close>, for every filter, limit
  and offset.
\<close>

theorem get_messages_ordered:
  assumes "get_messages lim off f s q db = Inr (page, n)" and "Suc i < length page"
  shows "(m_ts (page ! i), m_message_id (page ! i))
           \<le> (m_ts (page ! Suc i), m_message_id (page ! Suc i))"
proof -
  let ?rows = "limit_offset lim off (order_by (filter (where_sql (where_clauses f s q)) db))"
  let ?key = "\<lambda>m. (m_ts m, m_message_id m)"
  from assms(1) have page: "page = map to_dict ?rows"
    by (simp add: get_messages_def Let_def split: if_splits)
  have "sorted (map (\<lambda>r. (ts r, message_id r)) ?rows)"
    by (rule sorted_limit_offset) (rule sorted_order_by)
  moreover have "map (\<lambda>r. (ts r, message_id r)) ?rows = map ?key page"
    by (simp add: page to_dict_def)
  ultimately have "sorted (map ?key page)" by simp
  then have "map ?key page ! i \<le> map ?key page ! Suc i"
    using assms(2) by (intro sorted_nth_mono) simp_all
  then show ?thesis using assms(2) by simp
qed

theorem get_messages_ordered_witness:
  "get_messages 50 0 None None None sample_db =
     Inr (map to_dict [sample_db ! 1, sample_db ! 0, sample_db ! 2], 3) \<and>
   Suc 1 < length (map to_dict [sample_db ! 1, sample_db ! 0, sample_db ! 2]) \<and>
   (ts (sample_db ! 0), message_id (sample_db ! 0))
     \<le> (ts (sample_db ! 2), message_id (sample_db ! 2))"
proof -
  have len: "Suc 1 < length (map to_dict [sample_db ! 1, sample_db ! 0, sample_db ! 2])"
    by simp
  show ?thesis
    using get_messages_ordered [OF sample_all len] sample_all
    by (simp add: to_dict_def)
qed

text \<open>
  The bounds of the parameters: an absent limit is the limit 50; a limit below 1 or
  above 100, or a negative offset, is answered 422 whatever the store holds; a limit
  from 1 to 100, so also 100, with an offset that is not negative is not answered 422:
  the store is asked with that limit and offset, and what it returns is answered 200
  with them.
\<close>

theorem list_messages_bounds:
  "list_messages None offset_param f s q db = list_messages (Some 50) offset_param f s q db \<and>
   (l < 1 \<or> 100 < l \<longrightarrow> list_messages (Some l) offset_param f s q db = HTTP_422) \<and>
   (off < 0 \<longrightarrow> list_messages limit_param (Some off) f s q db = HTTP_422) \<and>
   (1 \<le> l \<and> l \<le> 100 \<and> 0 \<le> off \<longrightarrow>
      list_messages (Some l) (Some off) f s q db \<noteq> HTTP_422 \<and>
      list_messages (Some l) (Some off) f s q db =
        (case get_messages l off f s q db of
           Inl _ \<Rightarrow> HTTP_500
         | Inr (page, n) \<Rightarrow> HTTP_200 \<lparr>data = page, total = n, limit = l, offset = off\<rparr>))"
  by (auto simp add: list_messages_def Let_def split: sum.splits prod.splits option.splits)

lemma sample_limit_100:
  "get_messages 100 0 None None None sample_db =
     Inr (map to_dict [sample_db ! 1, sample_db ! 0, sample_db ! 2], 3)"
  by (simp add: get_messages_def where_clauses_def where_sql_def truthy_def like_raises_def
        sqlite_integer_def limit_offset_def order_by_def sample_defs)

theorem list_messages_bounds_witness:
  "list_messages None None None None None sample_db =
     list_messages (Some 50) None None None None sample_db \<and>
   list_messages (Some 150) None None None None sample_db = HTTP_422 \<and>
   list_messages (Some 0) None None None None sample_db = HTTP_422 \<and>
   list_messages None (Some (- 1)) None None None sample_db = HTTP_422 \<and>
   list_messages (Some 100) (Some 0) None None None sample_db =
     HTTP_200 \<lparr>data = map to_dict [sample_db ! 1, sample_db ! 0, sample_db ! 2], total = 3,
               limit = 100, offset = 0\<rparr>"
  using list_messages_bounds [of None None None None sample_db 150 "- 1" None]
    list_messages_bounds [of None None None None sample_db 0 "- 1" None]
    list_messages_bounds [of None None None None sample_db 100 0 None]
  by (simp add: sample_limit_100)

text \<open>
  A request within the bounds is answered 200 when its offset also fits SQLite's integer
  and its pattern is not refused.
\<close>

lemma list_messages_accepts:
  assumes "1 \<le> l" and "l \<le> 100" and "0 \<le> off" and "off < 2 ^ 63"
    and "\<not> like_raises f s q db"
  shows "\<exists>page n. list_messages (Some l) (Some off) f s q db =
           HTTP_200 \<lparr>data = page, total = n, limit = l, offset = off\<rparr>"
  using assms
  by (simp add: list_messages_def get_messages_def sqlite_integer_def Let_def)

text \<open>
  C7: the limit 100 with the offset \<open>2\<^sup>6\<^sup>3\<close>, which is not negative, passes the bounds
  of the parameters and is not answered 422, but it is not accepted either: the offset
  has no upper bound as the limit has, the driver cannot bind it to the \<^verbatim>\<open>OFFSET\<close> of
  the query and raises \<^verbatim>\<open>OverflowError\<close>, and the request is answered 500 where the
  claim has it accepted, with 200.
\<close>

theorem list_messages_offset_overflow:
  "get_messages 100 (2 ^ 63) None None None db = Inl OverflowError \<and>
   list_messages (Some 100) (Some (2 ^ 63)) f s q db = HTTP_500 \<and>
   list_messages (Some 100) (Some (2 ^ 63)) f s q db \<noteq> HTTP_422"
proof -
  have a: "get_messages 100 (2 ^ 63) None None None db = Inl OverflowError"
    by (simp add: get_messages_def like_raises_def truthy_def sqlite_integer_def Let_def)
  have "\<exists>err. get_messages 100 (2 ^ 63) f s q db = Inl err"
    by (simp add: get_messages_def sqlite_integer_def Let_def)
  then have b: "list_messages (Some 100) (Some (2 ^ 63)) f s q db = HTTP_500"
    by (auto simp add: list_messages_def)
  from a b show ?thesis by simp
qed

theorem list_messages_offset_overflow_witness:
  "get_messages 100 (2 ^ 63) None None None sample_db = Inl OverflowError \<and>
   list_messages (Some 100) (Some (2 ^ 63)) None None None sample_db = HTTP_500"
  using list_messages_offset_overflow [of sample_db None None None]
  by simp

text \<open>The text filter on a query without wildcards is containment up to ASCII case.\<close>

lemma take_length_eq: "take (length q) t = q \<longleftrightarrow> (\<exists>v. t = q @ v)"
proof
  assume "take (length q) t = q"
  then have "t = q @ drop (length q) t" by (metis append_take_drop_id)
  then show "\<exists>v. t = q @ v" ..
qed auto

lemma substring_iff: "substring q t \<longleftrightarrow> (\<exists>u v. t = u @ q @ v)"
proof (induction t)
  case Nil
  then show ?case by auto
next
  case (Cons c cs)
  have "(\<exists>u v. c # cs = u @ q @ v) \<longleftrightarrow> (\<exists>v. c # cs = q @ v) \<or> (\<exists>u v. cs = u @ q @ v)"
    by (auto simp: Cons_eq_append_conv)
  then show ?case using Cons by (simp only: substring.simps take_length_eq)
qed

lemma like_percent: "like (37 # ps) s \<longleftrightarrow> (\<exists>u v. s = u @ v \<and> like ps v)"
proof (induction s)
  case Nil
  then show ?case by simp
next
  case (Cons c t)
  have "(\<exists>u v. c # t = u @ v \<and> like ps v) \<longleftrightarrow>
      like ps (c # t) \<or> (\<exists>u v. t = u @ v \<and> like ps v)"
    by (auto simp: Cons_eq_append_conv)
  then show ?case using Cons by simp
qed

lemma like_percent_only: "like [37] s"
  by (subst like_percent) simp

lemma like_literal:
  "list_all (\<lambda>c. c \<noteq> 37 \<and> c \<noteq> 95) q \<Longrightarrow>
   like (q @ rest) s \<longleftrightarrow>
     (\<exists>a b. s = a @ b \<and> map ascii_lower a = map ascii_lower q \<and> like rest b)"
proof (induction q arbitrary: s)
  case Nil
  then show ?case by simp
next
  case (Cons p ps)
  then have p: "p \<noteq> 37" "p \<noteq> 95" and ps: "list_all (\<lambda>c. c \<noteq> 37 \<and> c \<noteq> 95) ps"
    by simp_all
  let ?R = "\<exists>a b. s = a @ b \<and> map ascii_lower a = map ascii_lower (p # ps) \<and> like rest b"
  show ?case
  proof (cases s)
    case Nil
    then show ?thesis using p by simp
  next
    case s: (Cons c t)
    have step: "like ((p # ps) @ rest) s \<longleftrightarrow> ascii_lower p = ascii_lower c \<and>
        (\<exists>a b. t = a @ b \<and> map ascii_lower a = map ascii_lower ps \<and> like rest b)"
      using p s Cons.IH [OF ps, of t] by simp
    show ?thesis
    proof
      assume "like ((p # ps) @ rest) s"
      with step obtain a b where "ascii_lower p = ascii_lower c" "t = a @ b"
        "map ascii_lower a = map ascii_lower ps" "like rest b" by blast
      then have "s = (c # a) @ b \<and> map ascii_lower (c # a) = map ascii_lower (p # ps) \<and>
          like rest b"
        using s by simp
      then show ?R by blast
    next
      assume ?R
      then obtain a b where ab: "s = a @ b" "map ascii_lower a = map ascii_lower (p # ps)"
        "like rest b" by blast
      from ab(2) obtain z zs where z: "a = z # zs" "ascii_lower z = ascii_lower p"
        "map ascii_lower zs = map ascii_lower ps" by (auto simp: map_eq_Cons_conv)
      from ab(1) s z(1) have "c = z" "t = zs @ b" by simp_all
      with z ab(3) step show "like ((p # ps) @ rest) s" by auto
    qed
  qed
qed

lemma like_icontains:
  assumes "list_all (\<lambda>c. c \<noteq> 37 \<and> c \<noteq> 95) q"
  shows "like (cps ''%'' @ q @ cps ''%'') t \<longleftrightarrow> icontains q t"
proof -
  have "like (cps ''%'' @ q @ cps ''%'') t \<longleftrightarrow> like (37 # q @ [37]) t"
    by (simp add: cps_def)
  also have "\<dots> \<longleftrightarrow> (\<exists>u v. t = u @ v \<and> like (q @ [37]) v)"
    by (rule like_percent)
  also have "\<dots> \<longleftrightarrow> (\<exists>u v. t = u @ v \<and>
      (\<exists>a b. v = a @ b \<and> map ascii_lower a = map ascii_lower q \<and> like [37] b))"
    by (simp only: like_literal [OF assms])
  also have "\<dots> \<longleftrightarrow> (\<exists>u a b. t = u @ a @ b \<and> map ascii_lower a = map ascii_lower q)"
    using like_percent_only by blast
  also have "\<dots> \<longleftrightarrow> (\<exists>u' v'. map ascii_lower t = u' @ map ascii_lower q @ v')"
  proof
    assume "\<exists>u a b. t = u @ a @ b \<and> map ascii_lower a = map ascii_lower q"
    then obtain u a b where "t = u @ a @ b" "map ascii_lower a = map ascii_lower q" by blast
    then have "map ascii_lower t = map ascii_lower u @ map ascii_lower q @ map ascii_lower b"
      by simp
    then show "\<exists>u' v'. map ascii_lower t = u' @ map ascii_lower q @ v'" by blast
  next
    assume "\<exists>u' v'. map ascii_lower t = u' @ map ascii_lower q @ v'"
    then obtain u' v' where "map ascii_lower t = u' @ map ascii_lower q @ v'" by blast
    then obtain u w where uw: "t = u @ w" "map ascii_lower w = map ascii_lower q @ v'"
      by (metis map_eq_append_conv)
    from uw(2) obtain a b where "w = a @ b" "map ascii_lower a = map ascii_lower q"
      by (metis map_eq_append_conv)
    with uw(1) show "\<exists>u a b. t = u @ a @ b \<and> map ascii_lower a = map ascii_lower q" by blast
  qed
  finally show ?thesis by (simp add: icontains_def substring_iff)
qed

lemma c_str_plain: "list_all (\<lambda>c. c \<noteq> 0) s \<Longrightarrow> c_str s = s"
  by (simp add: c_str_def list_all_iff takeWhile_eq_all_conv)

lemma sqlite_like_icontains:
  assumes "list_all (\<lambda>c. c \<noteq> 37 \<and> c \<noteq> 95 \<and> c \<noteq> 0) p"
  shows "sqlite_like (cps ''%'' @ p @ cps ''%'') t \<longleftrightarrow> icontains p (c_str t)"
proof -
  from assms have "list_all (\<lambda>c. c \<noteq> 0) (cps ''%'' @ p @ cps ''%'')"
    by (simp add: cps_def list_all_iff)
  then have "c_str (cps ''%'' @ p @ cps ''%'') = cps ''%'' @ p @ cps ''%''"
    by (rule c_str_plain)
  moreover from assms have "list_all (\<lambda>c. c \<noteq> 37 \<and> c \<noteq> 95) p"
    by (simp add: list_all_iff)
  ultimately show ?thesis
    by (simp only: sqlite_like_def like_icontains)
qed

lemma where_sql_matches:
  assumes "plain_query q"
  shows "where_sql (where_clauses f s q) r \<longleftrightarrow> matches f s q r"
proof (cases "truthy q")
  case True
  then obtain p where q: "q = Some p" by (cases q) (auto simp: truthy_def)
  with assms have "list_all (\<lambda>c. c \<noteq> 37 \<and> c \<noteq> 95 \<and> c \<noteq> 0) p"
    by (simp add: plain_query_def)
  then show ?thesis
    by (simp add: where_sql_def where_clauses_def matches_def q sqlite_like_icontains
          split: option.splits)
next
  case False
  then show ?thesis by (simp add: where_sql_def where_clauses_def matches_def)
qed

text \<open>
  C5, as the code has it: for a text query without \<^verbatim>\<open>%\<close>, \<^verbatim>\<open>_\<close> and U+0000 that
  SQLite takes, and integers that fit, the listing returns the window of limit and offset over the ordered
  rows that satisfy every filter that is present and not empty (equal sender, timestamp
  not below the bound, text holding the query up to the case of ASCII letters), and the
  total is the number of all those rows, in which limit and offset play no part.
\<close>

theorem get_messages_filters:
  assumes "plain_query q" and "sqlite_integer lim" and "sqlite_integer off"
  shows "get_messages lim off f s q db =
     Inr (map to_dict (limit_offset lim off (order_by (filter (matches f s q) db))),
          length (filter (matches f s q) db))"
proof -
  have "filter (where_sql (where_clauses f s q)) db = filter (matches f s q) db"
    by (rule filter_cong) (simp_all add: where_sql_matches [OF assms(1)])
  moreover have "\<not> like_raises f s q db"
    using assms(1) by (cases q) (simp_all add: like_raises_def truthy_def plain_query_def
        pattern_too_complex_def utf8_length_def cps_def)
  ultimately show ?thesis using assms(2,3) by (simp add: get_messages_def Let_def)
qed

lemma sample_hello:
  "filter (matches (Some (cps ''+919876543210'')) (Some (cps ''2025-01-15T09:30:00Z''))
      (Some (cps ''hello''))) sample_db = [sample_db ! 0]"
  by (simp add: matches_def truthy_def icontains_def ascii_lower_def c_str_def sample_defs)

theorem get_messages_filters_witness:
  "plain_query (Some (cps ''hello'')) \<and> sqlite_integer 1 \<and> sqlite_integer 0 \<and>
   get_messages 1 0 (Some (cps ''+919876543210'')) (Some (cps ''2025-01-15T09:30:00Z''))
       (Some (cps ''hello'')) sample_db = Inr ([to_dict (sample_db ! 0)], 1)"
proof -
  have w: "plain_query (Some (cps ''hello''))"
    by (simp add: plain_query_def utf8_length_def cps_def)
  have i: "sqlite_integer 1" "sqlite_integer 0"
    by (simp_all add: sqlite_integer_def)
  show ?thesis
    using get_messages_filters [OF w i, of "Some (cps ''+919876543210'')"
        "Some (cps ''2025-01-15T09:30:00Z'')" sample_db] w i
    by (simp add: sample_hello limit_offset_def order_by_def)
qed

text \<open>
  Against the claim as worded: no text of the sample store holds \<^verbatim>\<open>hello\<close> as a
  substring, and the listing for that query returns one message and the total 1.
\<close>

theorem get_messages_like_ignores_case:
  "filter (spec_text_matches (cps ''hello'')) sample_db = [] \<and>
   get_messages 50 0 None None (Some (cps ''hello'')) sample_db =
     Inr ([to_dict (sample_db ! 0)], 1)"
proof -
  have a: "filter (spec_text_matches (cps ''hello'')) sample_db = []"
    by (simp add: spec_text_matches_def sample_defs)
  have b: "filter (where_sql (where_clauses None None (Some (cps ''hello'')))) sample_db
      = [sample_db ! 0]"
    by (simp add: where_sql_def where_clauses_def truthy_def sqlite_like_def c_str_def
          ascii_lower_def sample_defs)
  have c: "\<not> like_raises None None (Some (cps ''hello'')) sample_db"
    by (simp add: like_raises_def pattern_too_complex_def utf8_length_def cps_def)
  show ?thesis
    by (simp add: a get_messages_def b c sqlite_integer_def limit_offset_def order_by_def)
qed

section \<open>Statistics\<close>

lemma sum_list_insort_key: "sum_list (map f (insort_key k x xs)) = f x + sum_list (map f xs)"
  for f :: "'a \<Rightarrow> nat"
  by (induction xs) auto

lemma sum_list_sort_key: "sum_list (map f (sort_key k xs)) = sum_list (map f xs)"
  for f :: "'a \<Rightarrow> nat"
  by (induction xs) (auto simp: sum_list_insort_key)

lemma sum_list_take_le: "sum_list (take n xs) \<le> sum_list xs" for xs :: "nat list"
proof -
  have "sum_list (take n xs) + sum_list (drop n xs) = sum_list xs"
    by (metis append_take_drop_id sum_list_append)
  then show ?thesis by linarith
qed

lemma length_filter_from:
  "length (filter (\<lambda>r. from_msisdn r = f) db) = count_list (map from_msisdn db) f"
  by (induction db) auto

text \<open>The groups partition the rows.\<close>

lemma sum_group_by_from: "sum_list (map snd (group_by_from db)) = length db"
proof -
  let ?fs = "map from_msisdn db"
  have "sum_list (map snd (group_by_from db))
      = sum_list (map (count_list ?fs) (sort (remdups ?fs)))"
    by (simp add: group_by_from_def comp_def length_filter_from)
  also have "\<dots> = sum (count_list ?fs) (set (sort (remdups ?fs)))"
    by (rule sum_list_distinct_conv_sum_set) simp
  also have "\<dots> = length ?fs"
    by (simp add: sum_count_set)
  finally show ?thesis by simp
qed

lemma top_senders_sum:
  "sum_list (map snd (messages_per_sender (get_stats db))) \<le> total_messages (get_stats db)"
proof -
  let ?sorted = "sort_key (\<lambda>g. - int (snd g)) (group_by_from db)"
  have "sum_list (map snd (messages_per_sender (get_stats db)))
      = sum_list (take 10 (map snd ?sorted))"
    by (simp add: get_stats_def take_map)
  also have "\<dots> \<le> sum_list (map snd ?sorted)"
    by (rule sum_list_take_le)
  also have "\<dots> = length db"
    by (simp add: sum_list_sort_key sum_group_by_from)
  finally show ?thesis by (simp add: get_stats_def)
qed

lemma top_senders_sorted:
  "sorted_wrt (\<lambda>a b. b \<le> a) (map snd (messages_per_sender (get_stats db)))"
proof -
  let ?k = "\<lambda>g::pystr \<times> nat. - int (snd g)"
  have "sorted (map ?k (sort_key ?k (group_by_from db)))" by (rule sorted_sort_key)
  then have "sorted_wrt (\<lambda>x y. snd y \<le> snd x) (sort_key ?k (group_by_from db))"
    by (simp add: sorted_wrt_map)
  then have "sorted_wrt (\<lambda>x y. snd y \<le> snd x) (take 10 (sort_key ?k (group_by_from db)))"
    by (rule sorted_wrt_take)
  then show ?thesis by (simp add: get_stats_def sorted_wrt_map)
qed

lemma sql_min_None: "sql_min xs = None \<longleftrightarrow> xs = []"
  by (simp add: sql_min_def split: list.splits)

lemma sql_max_None: "sql_max xs = None \<longleftrightarrow> xs = []"
  by (simp add: sql_max_def split: list.splits)

lemma sql_min_Min: "xs \<noteq> [] \<Longrightarrow> sql_min xs = Some (Min (set xs))"
  by (cases xs) (simp_all add: sql_min_def flip: Min.set_eq_fold)

lemma sql_max_Max: "xs \<noteq> [] \<Longrightarrow> sql_max xs = Some (Max (set xs))"
  by (cases xs) (simp_all add: sql_max_def flip: Max.set_eq_fold)

text \<open>
  C8: the statistics hold the number of rows, the number of distinct senders, at most
  ten pairs of sender and count in descending order of count whose counts sum to at
  most the number of rows, and the first and last timestamp, which are both null
  exactly when the store is empty and otherwise the least and the greatest timestamp,
  the first not above the last.
\<close>

theorem get_stats_correct:
  "total_messages (get_stats db) = length db \<and>
   senders_count (get_stats db) = card (from_msisdn ` set db) \<and>
   length (messages_per_sender (get_stats db)) \<le> 10 \<and>
   sorted_wrt (\<lambda>a b. b \<le> a) (map snd (messages_per_sender (get_stats db))) \<and>
   sum_list (map snd (messages_per_sender (get_stats db))) \<le> total_messages (get_stats db) \<and>
   (first_message_ts (get_stats db) = None \<longleftrightarrow> db = []) \<and>
   (last_message_ts (get_stats db) = None \<longleftrightarrow> db = []) \<and>
   (db \<noteq> [] \<longrightarrow>
      first_message_ts (get_stats db) = Some (Min (ts ` set db)) \<and>
      last_message_ts (get_stats db) = Some (Max (ts ` set db)) \<and>
      Min (ts ` set db) \<le> Max (ts ` set db))"
proof -
  have a: "senders_count (get_stats db) = card (from_msisdn ` set db)"
    by (simp add: get_stats_def length_remdups_card_conv)
  have b: "length (messages_per_sender (get_stats db)) \<le> 10"
    by (simp add: get_stats_def)
  have c: "first_message_ts (get_stats db) = None \<longleftrightarrow> db = []"
    by (simp add: get_stats_def sql_min_None)
  have d: "last_message_ts (get_stats db) = None \<longleftrightarrow> db = []"
    by (simp add: get_stats_def sql_max_None)
  have e: "first_message_ts (get_stats db) = Some (Min (ts ` set db))" if "db \<noteq> []"
    using that by (simp add: get_stats_def sql_min_Min)
  have f: "last_message_ts (get_stats db) = Some (Max (ts ` set db))" if "db \<noteq> []"
    using that by (simp add: get_stats_def sql_max_Max)
  have g: "Min (ts ` set db) \<le> Max (ts ` set db)" if "db \<noteq> []"
    using that by (simp add: Min_le_iff)
  show ?thesis
    using a b c d e f g top_senders_sorted [of db] top_senders_sum [of db]
    by (simp add: get_stats_def)
qed

lemma sample_stats:
  "get_stats sample_db =
     \<lparr>total_messages = 3, senders_count = 2,
      messages_per_sender = [(cps ''+919876543210'', 2), (cps ''+911234567890'', 1)],
      first_message_ts = Some (cps ''2025-01-15T09:00:00Z''),
      last_message_ts = Some (cps ''2025-01-15T10:00:00Z'')\<rparr>"
  by (simp add: get_stats_def group_by_from_def sql_min_def sql_max_def min_def max_def
        sample_defs)

theorem get_stats_correct_witness:
  "sample_db \<noteq> [] \<and>
   get_stats sample_db =
     \<lparr>total_messages = 3, senders_count = 2,
      messages_per_sender = [(cps ''+919876543210'', 2), (cps ''+911234567890'', 1)],
      first_message_ts = Some (cps ''2025-01-15T09:00:00Z''),
      last_message_ts = Some (cps ''2025-01-15T10:00:00Z'')\<rparr> \<and>
   card (from_msisdn ` set sample_db) = 2 \<and>
   Min (ts ` set sample_db) = cps ''2025-01-15T09:00:00Z'' \<and>
   Max (ts ` set sample_db) = cps ''2025-01-15T10:00:00Z''"
proof -
  have ne: "sample_db \<noteq> []" by (simp add: sample_db_def)
  show ?thesis
    using get_stats_correct [of sample_db] ne
    by (simp add: sample_stats)
qed

end
